theory Spec2Isabelle
  imports Main "HOL-Library.AList"
begin

section \<open>The resource adapter of \<^verbatim>\<open>otel-compat.ts\<close>\<close>

subsection \<open>JavaScript values\<close>

text \<open>
  The detector result has the TypeScript type \<^verbatim>\<open>any\<close>, so the adapter can be handed
  every JavaScript value. An object is kept as the list of its own enumerable data
  properties in insertion order; what an object means as a mapping is \<open>map_of\<close> of that
  list. Objects are plain data: no accessors, no proxies, no inherited properties besides
  those of the built-in prototypes (none of which is called \<^verbatim>\<open>attributes\<close>).

  The adapter only ever tests a number for truthiness, so a number is an integer or NaN:
  a fractional or infinite number behaves like any non-zero integer, and \<open>-0\<close> like \<open>0\<close>.
\<close>

datatype jsval =
    JUndefined
  | JNull
  | JBool bool
  | JNum int
  | JNaN
  | JBigInt int
  | JStr string
  | JSymbol string
  | JArr "jsval list"
  | JObj "(string \<times> jsval) list"
  | JFun "(string \<times> jsval) list"

type_synonym Attributes = "(string \<times> jsval) list"

text \<open>ToBoolean: what \<^verbatim>\<open>x && ...\<close> and \<^verbatim>\<open>if (x)\<close> test.\<close>

fun truthy :: "jsval \<Rightarrow> bool" where
  "truthy JUndefined = False"
| "truthy JNull = False"
| "truthy (JBool b) = b"
| "truthy (JNum n) = (n \<noteq> 0)"
| "truthy JNaN = False"
| "truthy (JBigInt n) = (n \<noteq> 0)"
| "truthy (JStr s) = (s \<noteq> [])"
| "truthy (JSymbol s) = True"
| "truthy (JArr xs) = True"
| "truthy (JObj ps) = True"
| "truthy (JFun ps) = True"

text \<open>The \<^verbatim>\<open>typeof\<close> operator.\<close>

fun typeof :: "jsval \<Rightarrow> string" where
  "typeof JUndefined = ''undefined''"
| "typeof JNull = ''object''"
| "typeof (JBool b) = ''boolean''"
| "typeof (JNum n) = ''number''"
| "typeof JNaN = ''number''"
| "typeof (JBigInt n) = ''bigint''"
| "typeof (JStr s) = ''string''"
| "typeof (JSymbol s) = ''symbol''"
| "typeof (JArr xs) = ''object''"
| "typeof (JObj ps) = ''object''"
| "typeof (JFun ps) = ''function''"

text \<open>
  What the adapter itself can throw is a \<^verbatim>\<open>TypeError\<close> (reading a property of
  \<^verbatim>\<open>undefined\<close> or \<^verbatim>\<open>null\<close>); everything else that can be thrown comes out of code
  that is not the adapter's, the telemetry library above all, and is carried as
  \<open>External\<close>.
\<close>

datatype 'e thrown = TypeError | External 'e

text \<open>
  The property read \<^verbatim>\<open>x.attributes\<close>. It throws on \<^verbatim>\<open>undefined\<close> and \<^verbatim>\<open>null\<close>; a
  primitive is read through its wrapper prototype, an array through
  \<^verbatim>\<open>Array.prototype\<close>, and neither has such a property; an object or a function gives
  its own property, \<^verbatim>\<open>undefined\<close> when it has none.
\<close>

fun get_attributes :: "jsval \<Rightarrow> 'e thrown + jsval" where
  "get_attributes JUndefined = Inl TypeError"
| "get_attributes JNull = Inl TypeError"
| "get_attributes (JObj ps) =
     Inr (case map_of ps ''attributes'' of None \<Rightarrow> JUndefined | Some v \<Rightarrow> v)"
| "get_attributes (JFun ps) =
     Inr (case map_of ps ''attributes'' of None \<Rightarrow> JUndefined | Some v \<Rightarrow> v)"
| "get_attributes v = Inr JUndefined"

text \<open>
  Object spread \<^verbatim>\<open>{...target, ...source}\<close>: each own property of the source is set on
  the object under construction, in order. Setting a key that is already there replaces
  its value in place, setting a new key appends it.
\<close>

definition spread :: "Attributes \<Rightarrow> Attributes \<Rightarrow> Attributes" where
  "spread target source = fold (\<lambda>(k, v). AList.update k v) source target"

subsection \<open>The telemetry library\<close>

text \<open>
  \<^verbatim>\<open>@opentelemetry/resources\<close> is not part of the repository: its three factory
  functions and the \<^verbatim>\<open>attributes\<close> property of its resource objects are parameters of
  the adapter. A factory call returns a native resource handle (\<open>Inr\<close>) or throws
  (\<open>Inl\<close>). The library's \<^verbatim>\<open>Resource\<close> interface declares
  \<^verbatim>\<open>readonly attributes: Attributes\<close>, so reading it gives a mapping.
\<close>

record ('r, 'e) otel_resources =
  resourceFromAttributes :: "jsval \<Rightarrow> 'e + 'r"
  defaultResource :: "'e + 'r"
  emptyResource :: "'e + 'r"
  native_attributes :: "'r \<Rightarrow> Attributes"

subsection \<open>\<^verbatim>\<open>class ResourceWrapper\<close>\<close>

text \<open>
  An instance has the one private field \<^verbatim>\<open>_resource\<close>. Instances live in a store; a
  reference to an instance is its index there, and \<^verbatim>\<open>new\<close> appends to the store.
  In this part the argument of \<^verbatim>\<open>merge\<close> is such an instance too, as every resource
  is that the module creates; an argument that is the caller's own implementation of the
  exported interface \<^verbatim>\<open>CompatResource\<close> is treated further down, with \<open>merge_fx\<close>.
\<close>

record 'r ResourceWrapper =
  priv_resource :: 'r

type_synonym 'r heap = "'r ResourceWrapper list"

type_synonym ref = nat

definition live :: "'r heap \<Rightarrow> ref \<Rightarrow> bool" where
  "live h w = (w < length h)"

definition new_ResourceWrapper :: "'r \<Rightarrow> 'r heap \<Rightarrow> ('e thrown + ref) \<times> 'r heap" where
  "new_ResourceWrapper resource h = (Inr (length h), h @ [\<lparr>priv_resource = resource\<rparr>])"

definition getNativeResource :: "'r heap \<Rightarrow> ref \<Rightarrow> 'r" where
  "getNativeResource h this = priv_resource (h ! this)"

definition attributes :: "('r, 'e) otel_resources \<Rightarrow> 'r heap \<Rightarrow> ref \<Rightarrow> Attributes" where
  "attributes lib h this = native_attributes lib (priv_resource (h ! this))"

text \<open>
  The object literal of \<^verbatim>\<open>merge\<close>: the attributes of \<^verbatim>\<open>this\<close>, then those of \<^verbatim>\<open>other\<close>,
  here an instance of the module, whose native resource is a resource of the library. What
  line 55 does with any other argument is in \<open>other_attributes\<close> and \<open>merge_fx\<close>.
\<close>

definition mergedAttributes :: "('r, 'e) otel_resources \<Rightarrow> ref \<Rightarrow> ref \<Rightarrow> 'r heap \<Rightarrow> Attributes" where
  "mergedAttributes lib this other h =
     spread (spread [] (native_attributes lib (priv_resource (h ! this))))
            (native_attributes lib (getNativeResource h other))"

definition merge ::
  "('r, 'e) otel_resources \<Rightarrow> ref \<Rightarrow> ref \<Rightarrow> 'r heap \<Rightarrow> ('e thrown + ref) \<times> 'r heap" where
  "merge lib this other h =
     (case resourceFromAttributes lib (JObj (mergedAttributes lib this other h)) of
        Inl e \<Rightarrow> (Inl (External e), h)
      | Inr merged \<Rightarrow> new_ResourceWrapper merged h)"

subsection \<open>The factory functions\<close>

text \<open>
  A parameter default (\<^verbatim>\<open>attributes: Attributes = {}\<close>) applies when the argument is
  missing or \<^verbatim>\<open>undefined\<close>.
\<close>

definition createResource ::
  "('r, 'e) otel_resources \<Rightarrow> jsval \<Rightarrow> 'r heap \<Rightarrow> ('e thrown + ref) \<times> 'r heap" where
  "createResource lib arg h =
     (let attributes' = (if arg = JUndefined then JObj [] else arg)
      in case resourceFromAttributes lib attributes' of
           Inl e \<Rightarrow> (Inl (External e), h)
         | Inr resource \<Rightarrow> new_ResourceWrapper resource h)"

definition getDefaultResource ::
  "('r, 'e) otel_resources \<Rightarrow> 'r heap \<Rightarrow> ('e thrown + ref) \<times> 'r heap" where
  "getDefaultResource lib h =
     (case defaultResource lib of
        Inl e \<Rightarrow> (Inl (External e), h)
      | Inr resource \<Rightarrow> new_ResourceWrapper resource h)"

definition getEmptyResource ::
  "('r, 'e) otel_resources \<Rightarrow> 'r heap \<Rightarrow> ('e thrown + ref) \<times> 'r heap" where
  "getEmptyResource lib h =
     (case emptyResource lib of
        Inl e \<Rightarrow> (Inl (External e), h)
      | Inr resource \<Rightarrow> new_ResourceWrapper resource h)"

text \<open>
  The two conditions of \<^verbatim>\<open>createResourceFromDetector\<close>, with the short circuit of
  \<^verbatim>\<open>&&\<close>: the right operand is only evaluated when the left one is truthy.
\<close>

definition detector_has_attributes :: "jsval \<Rightarrow> 'e thrown + bool" where
  "detector_has_attributes detectorResult =
     (if truthy detectorResult
      then (case get_attributes detectorResult of
              Inl err \<Rightarrow> Inl err
            | Inr a \<Rightarrow> Inr (truthy a))
      else Inr False)"

definition detector_is_object :: "jsval \<Rightarrow> bool" where
  "detector_is_object detectorResult =
     (truthy detectorResult \<and> typeof detectorResult = ''object'')"

text \<open>
  The value of the local variable \<^verbatim>\<open>attributes\<close> when the factory is called: it starts
  as \<^verbatim>\<open>{}\<close> and is overwritten by the first branch whose condition holds.
\<close>

definition detector_attributes :: "jsval \<Rightarrow> 'e thrown + jsval" where
  "detector_attributes detectorResult =
     (case detector_has_attributes detectorResult of
        Inl err \<Rightarrow> Inl err
      | Inr c1 \<Rightarrow>
          if c1 then get_attributes detectorResult
          else if detector_is_object detectorResult then Inr detectorResult
          else Inr (JObj []))"

definition createResourceFromDetector ::
  "('r, 'e) otel_resources \<Rightarrow> jsval \<Rightarrow> 'r heap \<Rightarrow> ('e thrown + ref) \<times> 'r heap" where
  "createResourceFromDetector lib detectorResult h =
     (case detector_attributes detectorResult of
        Inl err \<Rightarrow> (Inl err, h)
      | Inr attributes' \<Rightarrow>
          (case resourceFromAttributes lib attributes' of
             Inl e \<Rightarrow> (Inl (External e), h)
           | Inr resource \<Rightarrow> new_ResourceWrapper resource h))"

subsection \<open>The adapter as a whole\<close>

text \<open>The five operations that build a resource, as one type of calls.\<close>

datatype adapter_call =
    CreateResource jsval
  | GetDefaultResource
  | GetEmptyResource
  | CreateResourceFromDetector jsval
  | Merge ref ref

fun run ::
  "('r, 'e) otel_resources \<Rightarrow> adapter_call \<Rightarrow> 'r heap \<Rightarrow> ('e thrown + ref) \<times> 'r heap" where
  "run lib (CreateResource a) h = createResource lib a h"
| "run lib GetDefaultResource h = getDefaultResource lib h"
| "run lib GetEmptyResource h = getEmptyResource lib h"
| "run lib (CreateResourceFromDetector d) h = createResourceFromDetector lib d h"
| "run lib (Merge this other) h = merge lib this other h"

text \<open>The references a call takes must point to instances that exist.\<close>

fun call_ok :: "'r heap \<Rightarrow> adapter_call \<Rightarrow> bool" where
  "call_ok h (Merge this other) = (live h this \<and> live h other)"
| "call_ok h c = True"

subsection \<open>The operations with a stateful library and any \<^verbatim>\<open>CompatResource\<close>\<close>

text \<open>
  Above, the library is a function of its arguments and the argument of \<^verbatim>\<open>merge\<close> is an
  instance created by this module. The interface \<^verbatim>\<open>CompatResource\<close> is exported,
  though, so a caller can hand \<^verbatim>\<open>merge\<close> an implementation of its own; and whether a
  factory is called once or again only shows when a call leaves a trace. So the operations
  are given once more, line by line, against a library whose factory calls read and change
  a state \<open>'w\<close> of the library, and with any \<^verbatim>\<open>CompatResource\<close> as the argument of
  \<^verbatim>\<open>merge\<close>.
\<close>

record ('r, 'e, 'w) otel_effects =
  resourceFromAttributes_fx :: "jsval \<Rightarrow> 'w \<Rightarrow> ('e + 'r) \<times> 'w"
  defaultResource_fx :: "'w \<Rightarrow> ('e + 'r) \<times> 'w"
  emptyResource_fx :: "'w \<Rightarrow> ('e + 'r) \<times> 'w"
  native_attributes_fx :: "'r \<Rightarrow> Attributes"

text \<open>
  A value of the interface is an instance of \<^verbatim>\<open>ResourceWrapper\<close> or an object of the
  caller. Of the latter, \<^verbatim>\<open>merge\<close> only calls \<^verbatim>\<open>getNativeResource()\<close>, whose return type
  is \<^verbatim>\<open>any\<close>: the call returns a resource of the library, returns some other value, or
  throws.
\<close>

datatype ('r, 'x) CompatResource =
    Instance ref
  | ForeignHandle 'r
  | ForeignValue jsval
  | ForeignThrows 'x

text \<open>Decimal digits of an array index, as a property key.\<close>

fun decimal :: "nat \<Rightarrow> string" where
  "decimal n =
     (if n < 10 then [''0123456789'' ! n]
      else decimal (n div 10) @ [''0123456789'' ! (n mod 10)])"

declare decimal.simps [simp del]

text \<open>
  The own enumerable properties that a spread \<^verbatim>\<open>...v\<close> copies: those of an object or a
  function, the elements of an array and the characters of a string under their indices,
  and nothing for \<^verbatim>\<open>undefined\<close>, \<^verbatim>\<open>null\<close> and the other primitives.
\<close>

fun own_enumerable :: "jsval \<Rightarrow> Attributes" where
  "own_enumerable (JObj ps) = ps"
| "own_enumerable (JFun ps) = ps"
| "own_enumerable (JArr xs) = zip (map decimal [0..<length xs]) xs"
| "own_enumerable (JStr s) = zip (map decimal [0..<length s]) (map (\<lambda>c. JStr [c]) s)"
| "own_enumerable v = []"

text \<open>
  What \<^verbatim>\<open>...other.getNativeResource().attributes\<close> copies, or the exception on the way:
  the one \<^verbatim>\<open>getNativeResource()\<close> throws, or the \<^verbatim>\<open>TypeError\<close> of reading
  \<^verbatim>\<open>attributes\<close> of \<^verbatim>\<open>undefined\<close> or \<^verbatim>\<open>null\<close>. An exception of the library is
  \<open>External (Inl e)\<close>, one of the caller's object \<open>External (Inr x)\<close>.
\<close>

definition other_attributes ::
  "('r, 'e, 'w) otel_effects \<Rightarrow> 'r heap \<Rightarrow> ('r, 'x) CompatResource \<Rightarrow>
   ('e + 'x) thrown + Attributes" where
  "other_attributes lib h other =
     (case other of
        Instance r \<Rightarrow> Inr (native_attributes_fx lib (getNativeResource h r))
      | ForeignHandle r \<Rightarrow> Inr (native_attributes_fx lib r)
      | ForeignValue v \<Rightarrow>
          (case get_attributes v of
             Inl err \<Rightarrow> Inl err
           | Inr a \<Rightarrow> Inr (own_enumerable a))
      | ForeignThrows x \<Rightarrow> Inl (External (Inr x)))"

definition merge_fx ::
  "('r, 'e, 'w) otel_effects \<Rightarrow> ref \<Rightarrow> ('r, 'x) CompatResource \<Rightarrow> 'r heap \<Rightarrow> 'w \<Rightarrow>
   (('e + 'x) thrown + ref) \<times> 'r heap \<times> 'w" where
  "merge_fx lib this other h w =
     (case other_attributes lib h other of
        Inl err \<Rightarrow> (Inl err, h, w)
      | Inr copied \<Rightarrow>
          (let mergedAttributes =
                 spread (spread [] (native_attributes_fx lib (priv_resource (h ! this)))) copied
           in case resourceFromAttributes_fx lib (JObj mergedAttributes) w of
                (Inl e, w') \<Rightarrow> (Inl (External (Inl e)), h, w')
              | (Inr merged, w') \<Rightarrow>
                  (Inr (length h), h @ [\<lparr>priv_resource = merged\<rparr>], w')))"

definition createResource_fx ::
  "('r, 'e, 'w) otel_effects \<Rightarrow> jsval \<Rightarrow> 'r heap \<Rightarrow> 'w \<Rightarrow>
   (('e + 'x) thrown + ref) \<times> 'r heap \<times> 'w" where
  "createResource_fx lib arg h w =
     (let attributes' = (if arg = JUndefined then JObj [] else arg)
      in case resourceFromAttributes_fx lib attributes' w of
           (Inl e, w') \<Rightarrow> (Inl (External (Inl e)), h, w')
         | (Inr resource, w') \<Rightarrow>
             (Inr (length h), h @ [\<lparr>priv_resource = resource\<rparr>], w'))"

definition getDefaultResource_fx ::
  "('r, 'e, 'w) otel_effects \<Rightarrow> 'r heap \<Rightarrow> 'w \<Rightarrow>
   (('e + 'x) thrown + ref) \<times> 'r heap \<times> 'w" where
  "getDefaultResource_fx lib h w =
     (case defaultResource_fx lib w of
        (Inl e, w') \<Rightarrow> (Inl (External (Inl e)), h, w')
      | (Inr resource, w') \<Rightarrow>
          (Inr (length h), h @ [\<lparr>priv_resource = resource\<rparr>], w'))"

definition getEmptyResource_fx ::
  "('r, 'e, 'w) otel_effects \<Rightarrow> 'r heap \<Rightarrow> 'w \<Rightarrow>
   (('e + 'x) thrown + ref) \<times> 'r heap \<times> 'w" where
  "getEmptyResource_fx lib h w =
     (case emptyResource_fx lib w of
        (Inl e, w') \<Rightarrow> (Inl (External (Inl e)), h, w')
      | (Inr resource, w') \<Rightarrow>
          (Inr (length h), h @ [\<lparr>priv_resource = resource\<rparr>], w'))"

definition createResourceFromDetector_fx ::
  "('r, 'e, 'w) otel_effects \<Rightarrow> jsval \<Rightarrow> 'r heap \<Rightarrow> 'w \<Rightarrow>
   (('e + 'x) thrown + ref) \<times> 'r heap \<times> 'w" where
  "createResourceFromDetector_fx lib detectorResult h w =
     (case detector_attributes detectorResult of
        Inl err \<Rightarrow> (Inl err, h, w)
      | Inr attributes' \<Rightarrow>
          (case resourceFromAttributes_fx lib attributes' w of
             (Inl e, w') \<Rightarrow> (Inl (External (Inl e)), h, w')
           | (Inr resource, w') \<Rightarrow>
               (Inr (length h), h @ [\<lparr>priv_resource = resource\<rparr>], w')))"

datatype ('r, 'x) adapter_call_fx =
    CreateResource_fx jsval
  | GetDefaultResource_fx
  | GetEmptyResource_fx
  | CreateResourceFromDetector_fx jsval
  | Merge_fx ref "('r, 'x) CompatResource"

fun run_fx ::
  "('r, 'e, 'w) otel_effects \<Rightarrow> ('r, 'x) adapter_call_fx \<Rightarrow> 'r heap \<Rightarrow> 'w \<Rightarrow>
   (('e + 'x) thrown + ref) \<times> 'r heap \<times> 'w" where
  "run_fx lib (CreateResource_fx a) h w = createResource_fx lib a h w"
| "run_fx lib GetDefaultResource_fx h w = getDefaultResource_fx lib h w"
| "run_fx lib GetEmptyResource_fx h w = getEmptyResource_fx lib h w"
| "run_fx lib (CreateResourceFromDetector_fx d) h w = createResourceFromDetector_fx lib d h w"
| "run_fx lib (Merge_fx this other) h w = merge_fx lib this other h w"

text \<open>
  The factory call of an operation, as a function of the library's state, read off the
  source (lines 71, 80, 89, 106 and 57); or the exception that the operation throws
  before it gets there.
\<close>

fun factory_call ::
  "('r, 'e, 'w) otel_effects \<Rightarrow> ('r, 'x) adapter_call_fx \<Rightarrow> 'r heap \<Rightarrow>
   ('e + 'x) thrown + ('w \<Rightarrow> ('e + 'r) \<times> 'w)" where
  "factory_call lib (CreateResource_fx a) h =
     Inr (resourceFromAttributes_fx lib (if a = JUndefined then JObj [] else a))"
| "factory_call lib GetDefaultResource_fx h = Inr (defaultResource_fx lib)"
| "factory_call lib GetEmptyResource_fx h = Inr (emptyResource_fx lib)"
| "factory_call lib (CreateResourceFromDetector_fx d) h =
     (case detector_attributes d of
        Inl err \<Rightarrow> Inl err
      | Inr a \<Rightarrow> Inr (resourceFromAttributes_fx lib a))"
| "factory_call lib (Merge_fx this other) h =
     (case other_attributes lib h other of
        Inl err \<Rightarrow> Inl err
      | Inr copied \<Rightarrow>
          Inr (resourceFromAttributes_fx lib
                 (JObj (spread (spread [] (native_attributes_fx lib (priv_resource (h ! this))))
                          copied))))"

text \<open>
  An argument of \<^verbatim>\<open>merge\<close> whose \<^verbatim>\<open>getNativeResource()\<close> returns \<^verbatim>\<open>undefined\<close> or
  \<^verbatim>\<open>null\<close>.
\<close>

fun nullish_native :: "('r, 'x) CompatResource \<Rightarrow> bool" where
  "nullish_native (ForeignValue v) = (v = JUndefined \<or> v = JNull)"
| "nullish_native other = False"

text \<open>
  The library of the first part as a library with a state that its calls neither read nor
  change, and a call of the first part as a call of the second.
\<close>

definition stateless :: "('r, 'e) otel_resources \<Rightarrow> ('r, 'e, 'w) otel_effects" where
  "stateless lib =
     \<lparr> resourceFromAttributes_fx = (\<lambda>v w. (resourceFromAttributes lib v, w)),
       defaultResource_fx = (\<lambda>w. (defaultResource lib, w)),
       emptyResource_fx = (\<lambda>w. (emptyResource lib, w)),
       native_attributes_fx = native_attributes lib \<rparr>"

fun between_instances :: "adapter_call \<Rightarrow> ('r, 'x) adapter_call_fx" where
  "between_instances (CreateResource a) = CreateResource_fx a"
| "between_instances GetDefaultResource = GetDefaultResource_fx"
| "between_instances GetEmptyResource = GetEmptyResource_fx"
| "between_instances (CreateResourceFromDetector d) = CreateResourceFromDetector_fx d"
| "between_instances (Merge this other) = Merge_fx this (Instance other)"

subsection \<open>What the adapter expects of the library\<close>

text \<open>
  A resource built from a mapping exposes that mapping, and the empty resource exposes
  the empty mapping. Nothing is asked of a call that throws.
\<close>

definition lib_faithful :: "('r, 'e) otel_resources \<Rightarrow> bool" where
  "lib_faithful lib =
     ((\<forall>ps r. resourceFromAttributes lib (JObj ps) = Inr r \<longrightarrow>
               map_of (native_attributes lib r) = map_of ps) \<and>
      (\<forall>r. emptyResource lib = Inr r \<longrightarrow> native_attributes lib r = []))"

text \<open>A JavaScript object has each of its keys once.\<close>

definition wf_attributes :: "Attributes \<Rightarrow> bool" where
  "wf_attributes ps = distinct (map fst ps)"

subsection \<open>Notions used to state the properties\<close>

text \<open>
  The factory call that an operation delegates to, read off the source: line 71 for
  \<^verbatim>\<open>createResource\<close>, 80 for \<^verbatim>\<open>getDefaultResource\<close>, 89 for \<^verbatim>\<open>getEmptyResource\<close>,
  106 for \<^verbatim>\<open>createResourceFromDetector\<close> and 57 for \<^verbatim>\<open>merge\<close>. \<open>None\<close> says that the
  operation stopped before it reached the call.
\<close>

fun delegated ::
  "('r, 'e) otel_resources \<Rightarrow> adapter_call \<Rightarrow> 'r heap \<Rightarrow> ('e + 'r) option" where
  "delegated lib (CreateResource a) h =
     Some (resourceFromAttributes lib (if a = JUndefined then JObj [] else a))"
| "delegated lib GetDefaultResource h = Some (defaultResource lib)"
| "delegated lib GetEmptyResource h = Some (emptyResource lib)"
| "delegated lib (CreateResourceFromDetector d) h =
     (case detector_attributes d :: 'e thrown + jsval of
        Inl err \<Rightarrow> None
      | Inr a \<Rightarrow> Some (resourceFromAttributes lib a))"
| "delegated lib (Merge this other) h =
     Some (resourceFromAttributes lib (JObj (mergedAttributes lib this other h)))"

text \<open>What a caller can observe of a run: the exception, or the attributes of the result.\<close>

definition outcome ::
  "('r, 'e) otel_resources \<Rightarrow> ('e thrown + ref) \<times> 'r heap \<Rightarrow> 'e thrown + Attributes" where
  "outcome lib run_result =
     (case run_result of
        (Inl err, h') \<Rightarrow> Inl err
      | (Inr w, h') \<Rightarrow> Inr (attributes lib h' w))"

text \<open>
  Two calls have the same inputs when they are the same factory call, or two merges whose
  operands have the same attributes.
\<close>

definition same_inputs ::
  "('r, 'e) otel_resources \<Rightarrow> adapter_call \<Rightarrow> 'r heap \<Rightarrow> adapter_call \<Rightarrow> 'r heap \<Rightarrow> bool" where
  "same_inputs lib c1 h1 c2 h2 =
     (case c1 of
        Merge a1 b1 \<Rightarrow>
          (case c2 of
             Merge a2 b2 \<Rightarrow>
               attributes lib h1 a1 = attributes lib h2 a2 \<and>
               attributes lib h1 b1 = attributes lib h2 b2
           | _ \<Rightarrow> False)
      | _ \<Rightarrow> c1 = c2)"

text \<open>The expressions \<^verbatim>\<open>R.merge(getEmptyResource())\<close> and \<^verbatim>\<open>getEmptyResource().merge(R)\<close>.\<close>

definition merge_with_empty ::
  "('r, 'e) otel_resources \<Rightarrow> ref \<Rightarrow> 'r heap \<Rightarrow> ('e thrown + ref) \<times> 'r heap" where
  "merge_with_empty lib r h =
     (case getEmptyResource lib h of
        (Inl err, h1) \<Rightarrow> (Inl err, h1)
      | (Inr e, h1) \<Rightarrow> merge lib r e h1)"

definition empty_merge_with ::
  "('r, 'e) otel_resources \<Rightarrow> ref \<Rightarrow> 'r heap \<Rightarrow> ('e thrown + ref) \<times> 'r heap" where
  "empty_merge_with lib r h =
     (case getEmptyResource lib h of
        (Inl err, h1) \<Rightarrow> (Inl err, h1)
      | (Inr e, h1) \<Rightarrow> merge lib e r h1)"

text \<open>
  The precedence of \<^verbatim>\<open>createResourceFromDetector\<close> in the words of the specification:
  an input exposes an \<^verbatim>\<open>attributes\<close> field when it is an object (or a function) that has
  that property, whatever its value; it is a mapping-like object when it is an object
  other than \<^verbatim>\<open>null\<close>.
\<close>

fun attributes_field :: "jsval \<Rightarrow> jsval option" where
  "attributes_field (JObj ps) = map_of ps ''attributes''"
| "attributes_field (JFun ps) = map_of ps ''attributes''"
| "attributes_field v = None"

fun mapping_like :: "jsval \<Rightarrow> bool" where
  "mapping_like (JObj ps) = True"
| "mapping_like (JArr xs) = True"
| "mapping_like v = False"

definition stated_precedence :: "jsval \<Rightarrow> jsval" where
  "stated_precedence d =
     (case attributes_field d of
        Some v \<Rightarrow> v
      | None \<Rightarrow> if mapping_like d then d else JObj [])"

text \<open>The same precedence when the first rule asks for a field with a truthy value.\<close>

definition truthy_precedence :: "jsval \<Rightarrow> jsval" where
  "truthy_precedence d =
     (case attributes_field d of
        Some v \<Rightarrow> if truthy v then v else if mapping_like d then d else JObj []
      | None \<Rightarrow> if mapping_like d then d else JObj [])"

subsection \<open>A small library instance\<close>

text \<open>
  A stand-in for the library on which the theorems are instantiated: a handle is the
  attribute list itself, a resource cannot be built from \<^verbatim>\<open>undefined\<close> or \<^verbatim>\<open>null\<close>,
  and any other value that is not an object contributes no attributes.
\<close>

definition tiny_lib :: "(Attributes, string) otel_resources" where
  "tiny_lib =
     \<lparr> resourceFromAttributes =
         (\<lambda>v. case v of
                 JObj ps \<Rightarrow> Inr ps
               | JUndefined \<Rightarrow> Inl ''cannot convert undefined or null to object''
               | JNull \<Rightarrow> Inl ''cannot convert undefined or null to object''
               | _ \<Rightarrow> Inr []),
       defaultResource = Inr [(''service.name'', JStr ''unknown_service'')],
       emptyResource = Inr [],
       native_attributes = (\<lambda>r. r) \<rparr>"

text \<open>Two resources of that library, at references 0 and 1.\<close>

definition two_resources :: "Attributes heap" where
  "two_resources =
     [\<lparr>priv_resource = [(''service.name'', JStr ''api''), (''region'', JStr ''eu'')]\<rparr>,
      \<lparr>priv_resource = [(''region'', JStr ''us''), (''zone'', JNum 3)]\<rparr>]"

text \<open>A detector result whose \<^verbatim>\<open>attributes\<close> field holds \<^verbatim>\<open>0\<close>.\<close>

definition zero_field_detector :: jsval where
  "zero_field_detector = JObj [(''attributes'', JNum 0), (''host.name'', JStr ''h1'')]"

text \<open>
  A library that counts its factory calls in its state and whose first call throws: a
  second call would succeed.
\<close>

definition flaky_lib :: "(Attributes, string, nat) otel_effects" where
  "flaky_lib =
     \<lparr> resourceFromAttributes_fx =
         (\<lambda>v calls. (if calls = 0 then Inl ''unavailable''
                     else (case v of JObj ps \<Rightarrow> Inr ps | _ \<Rightarrow> Inr []), Suc calls)),
       defaultResource_fx =
         (\<lambda>calls. (if calls = 0 then Inl ''unavailable''
                   else Inr [(''service.name'', JStr ''unknown_service'')], Suc calls)),
       emptyResource_fx =
         (\<lambda>calls. (if calls = 0 then Inl ''unavailable'' else Inr [], Suc calls)),
       native_attributes_fx = (\<lambda>r. r) \<rparr>"

section \<open>Properties\<close>

subsection \<open>Spread is overlay\<close>

lemma map_of_spread:
  "distinct (map fst source) \<Longrightarrow> map_of (spread target source) = map_of target ++ map_of source"
proof (induction source arbitrary: target)
  case Nil
  then show ?case by (simp add: spread_def)
next
  case (Cons p source)
  obtain k v where p: "p = (k, v)" by (cases p)
  from Cons.prems p have fresh: "map_of source k = None" and d: "distinct (map fst source)"
    by (auto simp: map_of_eq_None_iff)
  have "map_of (spread target (p # source)) = map_of (spread (AList.update k v target) source)"
    by (simp add: spread_def p)
  also have "\<dots> = (map_of target)(k \<mapsto> v) ++ map_of source"
    using Cons.IH [OF d, of "AList.update k v target"] by (simp only: update_conv')
  also have "\<dots> = map_of target ++ map_of (p # source)"
    using fresh by (auto simp: p fun_eq_iff map_add_def split: option.splits)
  finally show ?case .
qed

lemma wf_spread: "wf_attributes target \<Longrightarrow> wf_attributes (spread target source)"
  unfolding wf_attributes_def spread_def
  by (induction source arbitrary: target) (auto simp: distinct_update)

lemma map_of_object_literal:
  "wf_attributes a \<Longrightarrow> wf_attributes b \<Longrightarrow>
   map_of (spread (spread [] a) b) = map_of a ++ map_of b"
  by (simp add: map_of_spread wf_attributes_def)

lemma tiny_lib_faithful: "lib_faithful tiny_lib"
  by (simp add: lib_faithful_def tiny_lib_def)

subsection \<open>Allocation\<close>

lemma new_ResourceWrapper_result:
  "new_ResourceWrapper r h = (Inr (length h), h @ [\<lparr>priv_resource = r\<rparr>])"
  by (simp add: new_ResourceWrapper_def)

lemma attributes_new:
  "attributes lib (h @ [\<lparr>priv_resource = r\<rparr>]) (length h) = native_attributes lib r"
  by (simp add: attributes_def)

lemma attributes_old:
  "live h w \<Longrightarrow> attributes lib (h @ new) w = attributes lib h w"
  by (simp add: attributes_def live_def nth_append)

lemma getNativeResource_old:
  "live h w \<Longrightarrow> getNativeResource (h @ new) w = getNativeResource h w"
  by (simp add: getNativeResource_def live_def nth_append)

lemma mergedAttributes_overlay:
  assumes "wf_attributes (attributes lib h this)" and "wf_attributes (attributes lib h other)"
  shows "map_of (mergedAttributes lib this other h) =
         map_of (attributes lib h this) ++ map_of (attributes lib h other)"
  using assms
  by (simp add: mergedAttributes_def attributes_def getNativeResource_def map_of_object_literal)

subsection \<open>Merging\<close>

lemma merge_cases:
  assumes "lib_faithful lib"
    and "wf_attributes (attributes lib h r1)" and "wf_attributes (attributes lib h r2)"
  shows "(\<exists>e. merge lib r1 r2 h = (Inl (External e), h)) \<or>
         (\<exists>m. merge lib r1 r2 h = (Inr (length h), h @ [\<lparr>priv_resource = m\<rparr>]) \<and>
              map_of (native_attributes lib m) =
                map_of (attributes lib h r1) ++ map_of (attributes lib h r2))"
proof (cases "resourceFromAttributes lib (JObj (mergedAttributes lib r1 r2 h))")
  case (Inl e)
  then show ?thesis by (simp add: merge_def)
next
  case (Inr m)
  with assms(1) have "map_of (native_attributes lib m) = map_of (mergedAttributes lib r1 r2 h)"
    by (simp add: lib_faithful_def)
  then have "map_of (native_attributes lib m) =
             map_of (attributes lib h r1) ++ map_of (attributes lib h r2)"
    using assms(2,3) by (simp add: mergedAttributes_overlay)
  moreover have "merge lib r1 r2 h = (Inr (length h), h @ [\<lparr>priv_resource = m\<rparr>])"
    using Inr by (simp add: merge_def new_ResourceWrapper_result)
  ultimately show ?thesis by simp
qed

text \<open>
  C1. \<^verbatim>\<open>R1.merge(R2)\<close> either lets the library's exception through or returns a new
  resource whose attributes are those of R1 overlaid with those of R2: on a key that both
  have, the value of R2 is the one kept. The library is taken to build a resource that
  exposes the mapping it was given, and each operand's attributes to be an object (every
  key once).
\<close>

theorem merge_overlays_attributes:
  assumes "lib_faithful lib"
    and "live h r1" and "live h r2"
    and "wf_attributes (attributes lib h r1)" and "wf_attributes (attributes lib h r2)"
  shows "(\<exists>e. merge lib r1 r2 h = (Inl (External e), h)) \<or>
         (\<exists>w h'. merge lib r1 r2 h = (Inr w, h') \<and> live h' w \<and>
                 map_of (attributes lib h' w) =
                   map_of (attributes lib h r1) ++ map_of (attributes lib h r2) \<and>
                 (\<forall>k v. map_of (attributes lib h r2) k = Some v \<longrightarrow>
                        map_of (attributes lib h' w) k = Some v) \<and>
                 (\<forall>k. map_of (attributes lib h r2) k = None \<longrightarrow>
                      map_of (attributes lib h' w) k = map_of (attributes lib h r1) k))"
  using merge_cases [OF assms(1,4,5)]
proof (elim disjE exE conjE)
  fix e
  assume "merge lib r1 r2 h = (Inl (External e), h)"
  then show ?thesis by blast
next
  fix m
  assume m: "merge lib r1 r2 h = (Inr (length h), h @ [\<lparr>priv_resource = m\<rparr>])"
    and a: "map_of (native_attributes lib m) =
            map_of (attributes lib h r1) ++ map_of (attributes lib h r2)"
  have "live (h @ [\<lparr>priv_resource = m\<rparr>]) (length h)" by (simp add: live_def)
  moreover have "map_of (attributes lib (h @ [\<lparr>priv_resource = m\<rparr>]) (length h)) =
                 map_of (attributes lib h r1) ++ map_of (attributes lib h r2)"
    using a by (simp add: attributes_new)
  ultimately show ?thesis using m by (auto simp: map_add_def)
qed

theorem merge_overlays_attributes_witness:
  "lib_faithful tiny_lib \<and> live two_resources 0 \<and> live two_resources 1 \<and>
   wf_attributes (attributes tiny_lib two_resources 0) \<and>
   wf_attributes (attributes tiny_lib two_resources 1) \<and>
   (\<exists>w h'. merge tiny_lib 0 1 two_resources = (Inr w, h') \<and> live h' w \<and>
           map_of (attributes tiny_lib h' w) =
             map_of (attributes tiny_lib two_resources 0) ++
             map_of (attributes tiny_lib two_resources 1)) \<and>
   map_of (attributes tiny_lib two_resources 0) ++ map_of (attributes tiny_lib two_resources 1) =
     [''service.name'' \<mapsto> JStr ''api'', ''region'' \<mapsto> JStr ''us'', ''zone'' \<mapsto> JNum 3]"
proof -
  have f: "lib_faithful tiny_lib" by (rule tiny_lib_faithful)
  have l: "live two_resources 0" "live two_resources 1"
    by (simp_all add: live_def two_resources_def)
  have w: "wf_attributes (attributes tiny_lib two_resources 0)"
          "wf_attributes (attributes tiny_lib two_resources 1)"
    by (simp_all add: wf_attributes_def attributes_def two_resources_def tiny_lib_def)
  have ok: "\<not> (\<exists>e. merge tiny_lib 0 1 two_resources = (Inl (External e), two_resources))"
    by (simp add: merge_def tiny_lib_def new_ResourceWrapper_def)
  have v: "map_of (attributes tiny_lib two_resources 0) ++
           map_of (attributes tiny_lib two_resources 1) =
           [''service.name'' \<mapsto> JStr ''api'', ''region'' \<mapsto> JStr ''us'', ''zone'' \<mapsto> JNum 3]"
    by (auto simp: attributes_def two_resources_def tiny_lib_def fun_eq_iff map_add_def)
  from merge_overlays_attributes [OF f l w] ok f l w v show ?thesis by blast
qed

subsection \<open>Building from attributes\<close>

lemma wrap_result:
  "(case x of Inl e \<Rightarrow> (Inl (External e), h) | Inr r \<Rightarrow> new_ResourceWrapper r h) = (res, h') \<Longrightarrow>
   (\<exists>e. x = Inl e \<and> res = Inl (External e) \<and> h' = h) \<or>
   (\<exists>r. x = Inr r \<and> res = Inr (length h) \<and> h' = h @ [\<lparr>priv_resource = r\<rparr>])"
  by (cases x) (auto simp: new_ResourceWrapper_def)

lemma createResource_cases:
  "(\<exists>e. resourceFromAttributes lib (JObj A) = Inl e \<and>
        createResource lib (JObj A) h = (Inl (External e), h)) \<or>
   (\<exists>r. resourceFromAttributes lib (JObj A) = Inr r \<and>
        createResource lib (JObj A) h = (Inr (length h), h @ [\<lparr>priv_resource = r\<rparr>]))"
  by (cases "resourceFromAttributes lib (JObj A)")
     (simp_all add: createResource_def new_ResourceWrapper_def)

lemma map_of_eq_empty: "map_of ps = map_of [] \<Longrightarrow> ps = []"
  by simp

text \<open>
  C4. \<^verbatim>\<open>createResource(A)\<close> lets the library's exception through or returns a resource
  whose attributes are A; without an argument it does so for the empty mapping. The
  library is taken to build a resource that exposes the mapping it was given.
\<close>

theorem createResource_attributes:
  assumes "lib_faithful lib"
  shows "((\<exists>e. resourceFromAttributes lib (JObj A) = Inl e \<and>
              createResource lib (JObj A) h = (Inl (External e), h)) \<or>
          (\<exists>w h'. createResource lib (JObj A) h = (Inr w, h') \<and> live h' w \<and>
                  map_of (attributes lib h' w) = map_of A)) \<and>
         ((\<exists>e. resourceFromAttributes lib (JObj []) = Inl e \<and>
              createResource lib JUndefined h = (Inl (External e), h)) \<or>
          (\<exists>w h'. createResource lib JUndefined h = (Inr w, h') \<and> live h' w \<and>
                  attributes lib h' w = []))"
proof -
  have step: "(\<exists>e. resourceFromAttributes lib (JObj B) = Inl e \<and>
                   createResource lib (JObj B) h = (Inl (External e), h)) \<or>
              (\<exists>w h'. createResource lib (JObj B) h = (Inr w, h') \<and> live h' w \<and>
                      map_of (attributes lib h' w) = map_of B)" for B
    using createResource_cases [of lib B h]
  proof (elim disjE exE conjE)
    fix e
    assume "resourceFromAttributes lib (JObj B) = Inl e"
      and "createResource lib (JObj B) h = (Inl (External e), h)"
    then show ?thesis by blast
  next
    fix r
    assume r: "resourceFromAttributes lib (JObj B) = Inr r"
      and c: "createResource lib (JObj B) h = (Inr (length h), h @ [\<lparr>priv_resource = r\<rparr>])"
    from assms r have "map_of (native_attributes lib r) = map_of B"
      by (simp add: lib_faithful_def)
    with c show ?thesis by (simp add: attributes_new live_def)
  qed
  have undef: "createResource lib JUndefined h = createResource lib (JObj []) h"
    by (simp add: createResource_def)
  from step [of "[]"] have
    "(\<exists>e. resourceFromAttributes lib (JObj []) = Inl e \<and>
          createResource lib JUndefined h = (Inl (External e), h)) \<or>
     (\<exists>w h'. createResource lib JUndefined h = (Inr w, h') \<and> live h' w \<and>
             attributes lib h' w = [])"
    unfolding undef using map_of_eq_empty by blast
  with step [of A] show ?thesis by blast
qed

theorem createResource_attributes_witness:
  "lib_faithful tiny_lib \<and>
   createResource tiny_lib (JObj [(''service.name'', JStr ''api'')]) [] =
     (Inr 0, [\<lparr>priv_resource = [(''service.name'', JStr ''api'')]\<rparr>]) \<and>
   (\<exists>w h'. createResource tiny_lib (JObj [(''service.name'', JStr ''api'')]) [] = (Inr w, h') \<and>
           live h' w \<and>
           map_of (attributes tiny_lib h' w) = map_of [(''service.name'', JStr ''api'')]) \<and>
   (\<exists>w h'. createResource tiny_lib JUndefined [] = (Inr w, h') \<and> live h' w \<and>
           attributes tiny_lib h' w = [])"
proof -
  have f: "lib_faithful tiny_lib" by (rule tiny_lib_faithful)
  have c: "createResource tiny_lib (JObj [(''service.name'', JStr ''api'')]) [] =
           (Inr 0, [\<lparr>priv_resource = [(''service.name'', JStr ''api'')]\<rparr>])"
    by (simp add: createResource_def tiny_lib_def new_ResourceWrapper_def)
  have u: "createResource tiny_lib JUndefined [] = (Inr 0, [\<lparr>priv_resource = []\<rparr>])"
    by (simp add: createResource_def tiny_lib_def new_ResourceWrapper_def)
  from createResource_attributes [OF f, of "[(''service.name'', JStr ''api'')]" "[]"] f c u
  show ?thesis by auto
qed

text \<open>
  C5. \<^verbatim>\<open>getEmptyResource()\<close> lets the library's exception through or returns a resource
  with no attributes; the library's empty resource is taken to have none.
\<close>

theorem getEmptyResource_attributes:
  assumes "lib_faithful lib"
  shows "(\<exists>e. emptyResource lib = Inl e \<and> getEmptyResource lib h = (Inl (External e), h)) \<or>
         (\<exists>w h'. getEmptyResource lib h = (Inr w, h') \<and> live h' w \<and>
                 attributes lib h' w = [] \<and> map_of (attributes lib h' w) = Map.empty)"
proof (cases "emptyResource lib")
  case (Inl e)
  then show ?thesis by (simp add: getEmptyResource_def)
next
  case (Inr r)
  with assms have "native_attributes lib r = []" by (simp add: lib_faithful_def)
  moreover have "getEmptyResource lib h = (Inr (length h), h @ [\<lparr>priv_resource = r\<rparr>])"
    using Inr by (simp add: getEmptyResource_def new_ResourceWrapper_def)
  ultimately show ?thesis by (simp add: attributes_new live_def)
qed

theorem getEmptyResource_attributes_witness:
  "lib_faithful tiny_lib \<and>
   getEmptyResource tiny_lib two_resources = (Inr 2, two_resources @ [\<lparr>priv_resource = []\<rparr>]) \<and>
   (\<exists>w h'. getEmptyResource tiny_lib two_resources = (Inr w, h') \<and> live h' w \<and>
           attributes tiny_lib h' w = [] \<and> map_of (attributes tiny_lib h' w) = Map.empty)"
proof -
  have f: "lib_faithful tiny_lib" by (rule tiny_lib_faithful)
  have g: "getEmptyResource tiny_lib two_resources =
           (Inr 2, two_resources @ [\<lparr>priv_resource = []\<rparr>])"
    by (simp add: getEmptyResource_def tiny_lib_def new_ResourceWrapper_def two_resources_def)
  from getEmptyResource_attributes [OF f, of two_resources] f g show ?thesis by auto
qed

subsection \<open>Instances are never written to\<close>

lemma run_result:
  "run lib c h = (res, h') \<Longrightarrow>
   (\<exists>err. res = Inl err \<and> h' = h) \<or>
   (\<exists>r. res = Inr (length h) \<and> h' = h @ [\<lparr>priv_resource = r\<rparr>])"
proof (cases c)
  case (CreateResource a)
  assume "run lib c h = (res, h')"
  with CreateResource show ?thesis
    by (auto simp: createResource_def Let_def dest: wrap_result)
next
  case GetDefaultResource
  assume "run lib c h = (res, h')"
  with GetDefaultResource show ?thesis
    by (auto simp: getDefaultResource_def dest: wrap_result)
next
  case GetEmptyResource
  assume "run lib c h = (res, h')"
  with GetEmptyResource show ?thesis
    by (auto simp: getEmptyResource_def dest: wrap_result)
next
  case (CreateResourceFromDetector d)
  assume "run lib c h = (res, h')"
  with CreateResourceFromDetector show ?thesis
    by (auto simp: createResourceFromDetector_def new_ResourceWrapper_def split: sum.splits)
next
  case (Merge a b)
  assume "run lib c h = (res, h')"
  with Merge show ?thesis
    by (auto simp: merge_def dest: wrap_result)
qed

text \<open>
  C6. \<^verbatim>\<open>R1.merge(R2)\<close> writes to no existing instance: every instance that was there
  is there afterwards with the same native resource and the same attributes, R1 and R2
  among them, and a returned resource is an instance that did not exist before, so it is
  neither R1 nor R2.
\<close>

theorem merge_mutates_no_operand:
  assumes "live h r1" and "live h r2" and "merge lib r1 r2 h = (res, h')"
  shows "attributes lib h' r1 = attributes lib h r1 \<and>
         attributes lib h' r2 = attributes lib h r2 \<and>
         getNativeResource h' r1 = getNativeResource h r1 \<and>
         getNativeResource h' r2 = getNativeResource h r2 \<and>
         (\<forall>v. live h v \<longrightarrow> live h' v \<and> h' ! v = h ! v) \<and>
         (\<forall>w. res = Inr w \<longrightarrow> w \<noteq> r1 \<and> w \<noteq> r2 \<and> \<not> live h w \<and> live h' w)"
proof -
  from assms(3) have "run lib (Merge r1 r2) h = (res, h')" by simp
  then consider (fail) err where "res = Inl err" "h' = h"
    | (ok) r where "res = Inr (length h)" "h' = h @ [\<lparr>priv_resource = r\<rparr>]"
    using run_result by blast
  then show ?thesis
  proof cases
    case fail
    then show ?thesis by simp
  next
    case ok
    with assms(1,2) show ?thesis
      by (auto simp: attributes_old getNativeResource_old live_def nth_append)
  qed
qed

theorem merge_mutates_no_operand_witness:
  "live two_resources 0 \<and> live two_resources 1 \<and>
   merge tiny_lib 0 1 two_resources =
     (Inr 2, two_resources @
        [\<lparr>priv_resource =
            [(''service.name'', JStr ''api''), (''region'', JStr ''us''), (''zone'', JNum 3)]\<rparr>]) \<and>
   attributes tiny_lib
     (two_resources @
        [\<lparr>priv_resource =
            [(''service.name'', JStr ''api''), (''region'', JStr ''us''), (''zone'', JNum 3)]\<rparr>]) 0 =
     attributes tiny_lib two_resources 0 \<and>
   attributes tiny_lib
     (two_resources @
        [\<lparr>priv_resource =
            [(''service.name'', JStr ''api''), (''region'', JStr ''us''), (''zone'', JNum 3)]\<rparr>]) 1 =
     attributes tiny_lib two_resources 1 \<and>
   (2::nat) \<noteq> 0 \<and> (2::nat) \<noteq> 1 \<and> \<not> live two_resources 2"
proof -
  have l: "live two_resources 0" "live two_resources 1"
    by (simp_all add: live_def two_resources_def)
  have m: "merge tiny_lib 0 1 two_resources =
     (Inr 2, two_resources @
        [\<lparr>priv_resource =
            [(''service.name'', JStr ''api''), (''region'', JStr ''us''), (''zone'', JNum 3)]\<rparr>])"
    by (simp add: merge_def mergedAttributes_def getNativeResource_def spread_def tiny_lib_def
        new_ResourceWrapper_def two_resources_def)
  from merge_mutates_no_operand [OF l m] l m show ?thesis by simp
qed

subsection \<open>The wrapper and its native resource agree\<close>

text \<open>
  C2. Whatever operation returns a resource, the resource is an instance of the store
  whose \<^verbatim>\<open>attributes\<close> are the attributes of the handle that \<^verbatim>\<open>getNativeResource()\<close>
  returns; and the operation leaves every instance that was there with the handle it had,
  so that the same holds of each of them afterwards.
\<close>

theorem attributes_equal_native_attributes:
  assumes "call_ok h c" and "run lib c h = (res, h')"
  shows "(\<forall>w. res = Inr w \<longrightarrow>
              live h' w \<and>
              attributes lib h' w = native_attributes lib (getNativeResource h' w)) \<and>
         (\<forall>v. live h v \<longrightarrow>
              live h' v \<and> getNativeResource h' v = getNativeResource h v \<and>
              attributes lib h' v = native_attributes lib (getNativeResource h' v))"
proof -
  have agree: "attributes lib g v = native_attributes lib (getNativeResource g v)" for g v
    by (simp add: attributes_def getNativeResource_def)
  from assms(2) consider (fail) err where "res = Inl err" "h' = h"
    | (ok) r where "res = Inr (length h)" "h' = h @ [\<lparr>priv_resource = r\<rparr>]"
    using run_result by blast
  then show ?thesis
  proof cases
    case fail
    then show ?thesis by (simp add: agree)
  next
    case ok
    then show ?thesis by (auto simp: agree getNativeResource_old live_def)
  qed
qed

theorem attributes_equal_native_attributes_witness:
  "call_ok two_resources (Merge 0 1) \<and>
   run tiny_lib (Merge 0 1) two_resources =
     (Inr 2, two_resources @
        [\<lparr>priv_resource =
            [(''service.name'', JStr ''api''), (''region'', JStr ''us''), (''zone'', JNum 3)]\<rparr>]) \<and>
   attributes tiny_lib
     (two_resources @
        [\<lparr>priv_resource =
            [(''service.name'', JStr ''api''), (''region'', JStr ''us''), (''zone'', JNum 3)]\<rparr>]) 2 =
   native_attributes tiny_lib
     (getNativeResource
        (two_resources @
           [\<lparr>priv_resource =
               [(''service.name'', JStr ''api''), (''region'', JStr ''us''), (''zone'', JNum 3)]\<rparr>]) 2)"
proof -
  have ok: "call_ok two_resources (Merge 0 1)"
    by (simp add: live_def two_resources_def)
  have m: "run tiny_lib (Merge 0 1) two_resources =
     (Inr 2, two_resources @
        [\<lparr>priv_resource =
            [(''service.name'', JStr ''api''), (''region'', JStr ''us''), (''zone'', JNum 3)]\<rparr>])"
    by (simp add: merge_def mergedAttributes_def getNativeResource_def spread_def tiny_lib_def
        new_ResourceWrapper_def two_resources_def)
  from attributes_equal_native_attributes [OF ok m] ok m show ?thesis by simp
qed

subsection \<open>The factory call of an operation\<close>

lemma detector_attributes_returns:
  "\<exists>v. (detector_attributes d :: 'e thrown + jsval) = Inr v"
  by (cases d)
     (simp_all add: detector_attributes_def detector_has_attributes_def detector_is_object_def)

lemma delegated_defined:
  fixes lib :: "('r, 'e) otel_resources"
  shows "\<exists>x. delegated lib c h = Some x"
proof (cases c)
  case (CreateResourceFromDetector d)
  obtain v where "(detector_attributes d :: 'e thrown + jsval) = Inr v"
    using detector_attributes_returns by blast
  with CreateResourceFromDetector show ?thesis by simp
qed simp_all

lemma wrap_eq:
  "(case x of Inl e \<Rightarrow> (Inl (External e), h) | Inr r \<Rightarrow> new_ResourceWrapper r h) =
   (case x of Inl e \<Rightarrow> (Inl (External e), h)
            | Inr r \<Rightarrow> (Inr (length h), h @ [\<lparr>priv_resource = r\<rparr>]))"
  by (cases x) (simp_all add: new_ResourceWrapper_def)

lemma run_delegated:
  fixes lib :: "('r, 'e) otel_resources"
  assumes "delegated lib c h = Some x"
  shows "run lib c h =
     (case x of
        Inl e \<Rightarrow> (Inl (External e), h)
      | Inr r \<Rightarrow> (Inr (length h), h @ [\<lparr>priv_resource = r\<rparr>]))"
proof (cases c)
  case (CreateResource a)
  with assms have "x = resourceFromAttributes lib (if a = JUndefined then JObj [] else a)"
    by simp
  with CreateResource show ?thesis
    by (simp add: createResource_def wrap_eq)
next
  case GetDefaultResource
  with assms have "x = defaultResource lib" by simp
  with GetDefaultResource show ?thesis
    by (simp add: getDefaultResource_def wrap_eq)
next
  case GetEmptyResource
  with assms have "x = emptyResource lib" by simp
  with GetEmptyResource show ?thesis
    by (simp add: getEmptyResource_def wrap_eq)
next
  case (CreateResourceFromDetector d)
  obtain v where v: "(detector_attributes d :: 'e thrown + jsval) = Inr v"
    using detector_attributes_returns by blast
  with assms CreateResourceFromDetector have "x = resourceFromAttributes lib v" by simp
  with CreateResourceFromDetector v show ?thesis
    by (simp add: createResourceFromDetector_def wrap_eq)
next
  case (Merge a b)
  with assms have "x = resourceFromAttributes lib (JObj (mergedAttributes lib a b h))"
    by simp
  with Merge show ?thesis
    by (simp add: merge_def wrap_eq)
qed

subsection \<open>Determinism\<close>

lemma outcome_run:
  fixes lib :: "('r, 'e) otel_resources"
  assumes "delegated lib c h = Some x"
  shows "outcome lib (run lib c h) =
     (case x of Inl e \<Rightarrow> Inl (External e) | Inr r \<Rightarrow> Inr (native_attributes lib r))"
proof (cases x)
  case (Inl e)
  with run_delegated [OF assms] show ?thesis by (simp add: outcome_def)
next
  case (Inr r)
  with run_delegated [OF assms] show ?thesis by (simp add: outcome_def attributes_new)
qed

lemma mergedAttributes_same:
  "attributes lib h1 a1 = attributes lib h2 a2 \<Longrightarrow>
   attributes lib h1 b1 = attributes lib h2 b2 \<Longrightarrow>
   mergedAttributes lib a1 b1 h1 = mergedAttributes lib a2 b2 h2"
  by (simp add: mergedAttributes_def attributes_def getNativeResource_def)

lemma delegated_same:
  assumes "same_inputs lib c1 h1 c2 h2"
  shows "delegated lib c1 h1 = delegated lib c2 h2"
proof (cases c1)
  case (Merge a1 b1)
  with assms obtain a2 b2 where c2: "c2 = Merge a2 b2"
    by (cases c2) (simp_all add: same_inputs_def)
  with assms Merge have "attributes lib h1 a1 = attributes lib h2 a2"
    and "attributes lib h1 b1 = attributes lib h2 b2"
    by (simp_all add: same_inputs_def)
  then have "mergedAttributes lib a1 b1 h1 = mergedAttributes lib a2 b2 h2"
    by (rule mergedAttributes_same)
  with Merge c2 show ?thesis by simp
next
  case (CreateResource a)
  with assms have "c2 = c1" by (simp add: same_inputs_def)
  with CreateResource show ?thesis by simp
next
  case GetDefaultResource
  with assms have "c2 = c1" by (simp add: same_inputs_def)
  with GetDefaultResource show ?thesis by simp
next
  case GetEmptyResource
  with assms have "c2 = c1" by (simp add: same_inputs_def)
  with GetEmptyResource show ?thesis by simp
next
  case (CreateResourceFromDetector d)
  with assms have "c2 = c1" by (simp add: same_inputs_def)
  with CreateResourceFromDetector show ?thesis by simp
qed

text \<open>
  C10. What a run gives (the exception, or the attributes of the resource) is fixed by
  the call and the library: the same factory call in two different stores, or two merges
  of operands with the same attributes, give the same. The library is a parameter that
  is a function of its arguments alone, which is the statelessness the claim supposes.
\<close>

theorem adapter_is_deterministic:
  fixes lib :: "('r, 'e) otel_resources"
  assumes "same_inputs lib c1 h1 c2 h2"
  shows "outcome lib (run lib c1 h1) = outcome lib (run lib c2 h2)"
proof -
  obtain x where x: "delegated lib c1 h1 = Some x" using delegated_defined by blast
  with assms have y: "delegated lib c2 h2 = Some x" by (simp add: delegated_same)
  show ?thesis by (simp only: outcome_run [OF x] outcome_run [OF y])
qed

theorem adapter_is_deterministic_witness:
  "same_inputs tiny_lib (CreateResourceFromDetector zero_field_detector) []
     (CreateResourceFromDetector zero_field_detector) two_resources \<and>
   same_inputs tiny_lib (Merge 0 1) two_resources (Merge 2 3) (two_resources @ two_resources) \<and>
   outcome tiny_lib (run tiny_lib (CreateResourceFromDetector zero_field_detector) []) =
   outcome tiny_lib (run tiny_lib (CreateResourceFromDetector zero_field_detector) two_resources) \<and>
   outcome tiny_lib (run tiny_lib (Merge 0 1) two_resources) =
   outcome tiny_lib (run tiny_lib (Merge 2 3) (two_resources @ two_resources))"
proof -
  have s1: "same_inputs tiny_lib (CreateResourceFromDetector zero_field_detector) []
              (CreateResourceFromDetector zero_field_detector) two_resources"
    by (simp add: same_inputs_def)
  have s2: "same_inputs tiny_lib (Merge 0 1) two_resources (Merge 2 3)
              (two_resources @ two_resources)"
    by (simp add: same_inputs_def attributes_def two_resources_def)
  from adapter_is_deterministic [OF s1] adapter_is_deterministic [OF s2] s1 s2
  show ?thesis by (simp only: simp_thms)
qed

subsection \<open>The empty resource and merge\<close>

lemma getEmptyResource_cases:
  assumes "lib_faithful lib"
  shows "(\<exists>e. getEmptyResource lib h = (Inl (External e), h)) \<or>
         (\<exists>x. getEmptyResource lib h = (Inr (length h), h @ [\<lparr>priv_resource = x\<rparr>]) \<and>
              native_attributes lib x = [])"
proof (cases "emptyResource lib")
  case (Inl e)
  then show ?thesis by (simp add: getEmptyResource_def)
next
  case (Inr x)
  with assms have "native_attributes lib x = []" by (simp add: lib_faithful_def)
  with Inr show ?thesis by (simp add: getEmptyResource_def new_ResourceWrapper_def)
qed

text \<open>
  C9. \<^verbatim>\<open>R.merge(getEmptyResource())\<close> and \<^verbatim>\<open>getEmptyResource().merge(R)\<close> let an
  exception of the library through or return a resource with the attributes of R. The
  library is taken to expose the mapping it was given and to have an empty resource
  without attributes, and the attributes of R to be an object (every key once).
\<close>

theorem empty_resource_is_merge_identity:
  assumes "lib_faithful lib" and "live h r" and "wf_attributes (attributes lib h r)"
  shows "((\<exists>e h1. merge_with_empty lib r h = (Inl (External e), h1)) \<or>
          (\<exists>w h2. merge_with_empty lib r h = (Inr w, h2) \<and> live h2 w \<and>
                  map_of (attributes lib h2 w) = map_of (attributes lib h r))) \<and>
         ((\<exists>e h1. empty_merge_with lib r h = (Inl (External e), h1)) \<or>
          (\<exists>w h2. empty_merge_with lib r h = (Inr w, h2) \<and> live h2 w \<and>
                  map_of (attributes lib h2 w) = map_of (attributes lib h r)))"
  using getEmptyResource_cases [OF assms(1), of h]
proof (elim disjE exE conjE)
  fix e
  assume "getEmptyResource lib h = (Inl (External e), h)"
  then show ?thesis by (simp add: merge_with_empty_def empty_merge_with_def)
next
  fix x
  assume g: "getEmptyResource lib h = (Inr (length h), h @ [\<lparr>priv_resource = x\<rparr>])"
    and x: "native_attributes lib x = []"
  let ?h1 = "h @ [\<lparr>priv_resource = x\<rparr>]"
  have ar: "attributes lib ?h1 r = attributes lib h r"
    using assms(2) by (rule attributes_old)
  have ae: "attributes lib ?h1 (length h) = []"
    using x by (simp add: attributes_new)
  have wr: "wf_attributes (attributes lib ?h1 r)" using assms(3) ar by simp
  have we: "wf_attributes (attributes lib ?h1 (length h))"
    using ae by (simp add: wf_attributes_def)
  have right: "(\<exists>e h1. merge_with_empty lib r h = (Inl (External e), h1)) \<or>
          (\<exists>w h2. merge_with_empty lib r h = (Inr w, h2) \<and> live h2 w \<and>
                  map_of (attributes lib h2 w) = map_of (attributes lib h r))"
    using merge_cases [OF assms(1) wr we]
  proof (elim disjE exE conjE)
    fix e
    assume "merge lib r (length h) ?h1 = (Inl (External e), ?h1)"
    then show ?thesis using g by (auto simp: merge_with_empty_def)
  next
    fix m
    assume m: "merge lib r (length h) ?h1 = (Inr (length ?h1), ?h1 @ [\<lparr>priv_resource = m\<rparr>])"
      and a: "map_of (native_attributes lib m) =
              map_of (attributes lib ?h1 r) ++ map_of (attributes lib ?h1 (length h))"
    have "merge_with_empty lib r h = (Inr (length ?h1), ?h1 @ [\<lparr>priv_resource = m\<rparr>])"
      using g m by (simp add: merge_with_empty_def)
    moreover have "live (?h1 @ [\<lparr>priv_resource = m\<rparr>]) (length ?h1)"
      by (simp add: live_def)
    moreover have "map_of (attributes lib (?h1 @ [\<lparr>priv_resource = m\<rparr>]) (length ?h1)) =
                   map_of (attributes lib h r)"
    proof -
      have "map_of (native_attributes lib m) = map_of (attributes lib h r)"
        using a unfolding ar ae by simp
      then show ?thesis by (simp only: attributes_new)
    qed
    ultimately show ?thesis by blast
  qed
  have left: "(\<exists>e h1. empty_merge_with lib r h = (Inl (External e), h1)) \<or>
          (\<exists>w h2. empty_merge_with lib r h = (Inr w, h2) \<and> live h2 w \<and>
                  map_of (attributes lib h2 w) = map_of (attributes lib h r))"
    using merge_cases [OF assms(1) we wr]
  proof (elim disjE exE conjE)
    fix e
    assume "merge lib (length h) r ?h1 = (Inl (External e), ?h1)"
    then show ?thesis using g by (auto simp: empty_merge_with_def)
  next
    fix m
    assume m: "merge lib (length h) r ?h1 = (Inr (length ?h1), ?h1 @ [\<lparr>priv_resource = m\<rparr>])"
      and a: "map_of (native_attributes lib m) =
              map_of (attributes lib ?h1 (length h)) ++ map_of (attributes lib ?h1 r)"
    have "empty_merge_with lib r h = (Inr (length ?h1), ?h1 @ [\<lparr>priv_resource = m\<rparr>])"
      using g m by (simp add: empty_merge_with_def)
    moreover have "live (?h1 @ [\<lparr>priv_resource = m\<rparr>]) (length ?h1)"
      by (simp add: live_def)
    moreover have "map_of (attributes lib (?h1 @ [\<lparr>priv_resource = m\<rparr>]) (length ?h1)) =
                   map_of (attributes lib h r)"
    proof -
      have "map_of (native_attributes lib m) = map_of (attributes lib h r)"
        using a unfolding ar ae by simp
      then show ?thesis by (simp only: attributes_new)
    qed
    ultimately show ?thesis by blast
  qed
  from right left show ?thesis by blast
qed

theorem empty_resource_is_merge_identity_witness:
  "lib_faithful tiny_lib \<and> live two_resources 0 \<and>
   wf_attributes (attributes tiny_lib two_resources 0) \<and>
   merge_with_empty tiny_lib 0 two_resources =
     (Inr 3, two_resources @ [\<lparr>priv_resource = []\<rparr>,
        \<lparr>priv_resource = [(''service.name'', JStr ''api''), (''region'', JStr ''eu'')]\<rparr>]) \<and>
   empty_merge_with tiny_lib 0 two_resources =
     (Inr 3, two_resources @ [\<lparr>priv_resource = []\<rparr>,
        \<lparr>priv_resource = [(''service.name'', JStr ''api''), (''region'', JStr ''eu'')]\<rparr>]) \<and>
   (\<exists>w h2. merge_with_empty tiny_lib 0 two_resources = (Inr w, h2) \<and> live h2 w \<and>
           map_of (attributes tiny_lib h2 w) = map_of (attributes tiny_lib two_resources 0)) \<and>
   (\<exists>w h2. empty_merge_with tiny_lib 0 two_resources = (Inr w, h2) \<and> live h2 w \<and>
           map_of (attributes tiny_lib h2 w) = map_of (attributes tiny_lib two_resources 0))"
proof -
  have f: "lib_faithful tiny_lib" by (rule tiny_lib_faithful)
  have l: "live two_resources 0" by (simp add: live_def two_resources_def)
  have w: "wf_attributes (attributes tiny_lib two_resources 0)"
    by (simp add: wf_attributes_def attributes_def two_resources_def tiny_lib_def)
  have m1: "merge_with_empty tiny_lib 0 two_resources =
     (Inr 3, two_resources @ [\<lparr>priv_resource = []\<rparr>,
        \<lparr>priv_resource = [(''service.name'', JStr ''api''), (''region'', JStr ''eu'')]\<rparr>])"
    by (simp add: merge_with_empty_def getEmptyResource_def merge_def mergedAttributes_def
        getNativeResource_def spread_def tiny_lib_def new_ResourceWrapper_def two_resources_def)
  have m2: "empty_merge_with tiny_lib 0 two_resources =
     (Inr 3, two_resources @ [\<lparr>priv_resource = []\<rparr>,
        \<lparr>priv_resource = [(''service.name'', JStr ''api''), (''region'', JStr ''eu'')]\<rparr>])"
    by (simp add: empty_merge_with_def getEmptyResource_def merge_def mergedAttributes_def
        getNativeResource_def spread_def tiny_lib_def new_ResourceWrapper_def two_resources_def)
  from empty_resource_is_merge_identity [OF f l w] f l w m1 m2 show ?thesis by auto
qed

subsection \<open>Detector results\<close>

lemma truthy_precedence_defined: "truthy_precedence d \<noteq> JUndefined"
  by (cases d) (auto simp: truthy_precedence_def split: option.splits)

lemma detector_attributes_precedence:
  "detector_attributes d = Inr (truthy_precedence d)"
  by (cases d)
     (auto simp: detector_attributes_def detector_has_attributes_def detector_is_object_def
        truthy_precedence_def split: option.splits)

lemma createResourceFromDetector_precedence:
  "createResourceFromDetector lib d h = createResource lib (truthy_precedence d) h"
  by (simp add: createResourceFromDetector_def createResource_def
      detector_attributes_precedence truthy_precedence_defined)

lemma createResource_faithful:
  assumes "lib_faithful lib"
  shows "(\<exists>e. resourceFromAttributes lib (JObj A) = Inl e \<and>
              createResource lib (JObj A) h = (Inl (External e), h)) \<or>
         (\<exists>r. createResource lib (JObj A) h = (Inr (length h), h @ [\<lparr>priv_resource = r\<rparr>]) \<and>
              map_of (native_attributes lib r) = map_of A)"
  using createResource_cases [of lib A h] assms
  by (auto simp: lib_faithful_def)

text \<open>
  C3, as the code has it. The attributes handed to the factory are: (1) the
  \<^verbatim>\<open>attributes\<close> field of the input when the input has one and its value is truthy;
  (2) otherwise the input itself when it is an object other than \<^verbatim>\<open>null\<close>; (3) otherwise
  the empty mapping. So \<^verbatim>\<open>createResourceFromDetector(d)\<close> is \<^verbatim>\<open>createResource\<close> of
  that choice, and for \<^verbatim>\<open>null\<close> the resource has no attributes (or the library's
  exception comes through).
\<close>

theorem detector_precedence:
  fixes lib :: "('r, 'e) otel_resources"
  shows "(detector_attributes d :: 'e thrown + jsval) = Inr (truthy_precedence d) \<and>
         createResourceFromDetector lib d h = createResource lib (truthy_precedence d) h \<and>
         truthy_precedence JNull = JObj [] \<and>
         (lib_faithful lib \<longrightarrow>
            (\<exists>e. createResourceFromDetector lib JNull h = (Inl (External e), h)) \<or>
            (\<exists>w h'. createResourceFromDetector lib JNull h = (Inr w, h') \<and> live h' w \<and>
                    attributes lib h' w = []))"
proof -
  have n: "truthy_precedence JNull = JObj []" by (simp add: truthy_precedence_def)
  have "(\<exists>e. createResourceFromDetector lib JNull h = (Inl (External e), h)) \<or>
        (\<exists>w h'. createResourceFromDetector lib JNull h = (Inr w, h') \<and> live h' w \<and>
                attributes lib h' w = [])" if f: "lib_faithful lib"
    using createResource_faithful [OF f, of "[]" h]
  proof (elim disjE exE conjE)
    fix e
    assume "createResource lib (JObj []) h = (Inl (External e), h)"
    then show ?thesis by (simp add: createResourceFromDetector_precedence n)
  next
    fix r
    assume c: "createResource lib (JObj []) h = (Inr (length h), h @ [\<lparr>priv_resource = r\<rparr>])"
      and "map_of (native_attributes lib r) = map_of []"
    then have "native_attributes lib r = []" by simp
    with c show ?thesis
      by (simp add: createResourceFromDetector_precedence n attributes_new live_def)
  qed
  with n show ?thesis
    by (simp add: detector_attributes_precedence createResourceFromDetector_precedence)
qed

theorem detector_precedence_witness:
  "lib_faithful tiny_lib \<and>
   truthy_precedence (JObj [(''attributes'', JObj [(''a'', JNum 1)]), (''b'', JNum 2)]) =
     JObj [(''a'', JNum 1)] \<and>
   createResourceFromDetector tiny_lib
     (JObj [(''attributes'', JObj [(''a'', JNum 1)]), (''b'', JNum 2)]) [] =
     (Inr 0, [\<lparr>priv_resource = [(''a'', JNum 1)]\<rparr>]) \<and>
   (\<exists>w h'. createResourceFromDetector tiny_lib JNull [] = (Inr w, h') \<and> live h' w \<and>
           attributes tiny_lib h' w = [])"
proof -
  have f: "lib_faithful tiny_lib" by (rule tiny_lib_faithful)
  have p: "truthy_precedence (JObj [(''attributes'', JObj [(''a'', JNum 1)]), (''b'', JNum 2)]) =
           JObj [(''a'', JNum 1)]"
    by (simp add: truthy_precedence_def)
  have c: "createResource tiny_lib (JObj [(''a'', JNum 1)]) [] =
           (Inr 0, [\<lparr>priv_resource = [(''a'', JNum 1)]\<rparr>])"
    by (simp add: createResource_def tiny_lib_def new_ResourceWrapper_def)
  have ok: "\<not> (\<exists>e. createResourceFromDetector tiny_lib JNull [] = (Inl (External e), []))"
    by (simp add: createResourceFromDetector_def detector_attributes_def
        detector_has_attributes_def detector_is_object_def tiny_lib_def new_ResourceWrapper_def)
  from detector_precedence
         [of "JObj [(''attributes'', JObj [(''a'', JNum 1)]), (''b'', JNum 2)]" tiny_lib "[]"]
       f p c ok
  show ?thesis by simp
qed

text \<open>
  C3 as it is stated fails on an input whose \<^verbatim>\<open>attributes\<close> field holds \<^verbatim>\<open>0\<close>: the
  input exposes the field, yet the factory is handed the input itself, not the field.
\<close>

theorem stated_precedence_counterexample:
  "attributes_field zero_field_detector = Some (JNum 0) \<and>
   stated_precedence zero_field_detector = JNum 0 \<and>
   (detector_attributes zero_field_detector :: string thrown + jsval) =
     Inr zero_field_detector \<and>
   (detector_attributes zero_field_detector :: string thrown + jsval) \<noteq>
     Inr (stated_precedence zero_field_detector) \<and>
   createResourceFromDetector tiny_lib zero_field_detector [] =
     (Inr 0, [\<lparr>priv_resource = [(''attributes'', JNum 0), (''host.name'', JStr ''h1'')]\<rparr>]) \<and>
   createResource tiny_lib (stated_precedence zero_field_detector) [] =
     (Inr 0, [\<lparr>priv_resource = []\<rparr>])"
  by (simp add: zero_field_detector_def stated_precedence_def detector_attributes_def
      detector_has_attributes_def detector_is_object_def createResourceFromDetector_def
      createResource_def tiny_lib_def new_ResourceWrapper_def)

text \<open>
  C8. When the input is an object whose \<^verbatim>\<open>attributes\<close> field holds a falsy value, the
  factory is handed the input itself: the call is \<^verbatim>\<open>createResource\<close> of the input, and
  with a library that exposes the mapping it was given the resource has every key of the
  input, the key \<^verbatim>\<open>attributes\<close> with its falsy value among them.
\<close>

theorem falsy_attributes_field_keeps_detector:
  fixes lib :: "('r, 'e) otel_resources"
  assumes "map_of ps ''attributes'' = Some v" and "\<not> truthy v"
  shows "(detector_attributes (JObj ps) :: 'e thrown + jsval) = Inr (JObj ps) \<and>
         createResourceFromDetector lib (JObj ps) h = createResource lib (JObj ps) h \<and>
         (lib_faithful lib \<longrightarrow>
            (\<exists>e. resourceFromAttributes lib (JObj ps) = Inl e \<and>
                 createResourceFromDetector lib (JObj ps) h = (Inl (External e), h)) \<or>
            (\<exists>w h'. createResourceFromDetector lib (JObj ps) h = (Inr w, h') \<and> live h' w \<and>
                    map_of (attributes lib h' w) = map_of ps \<and>
                    map_of (attributes lib h' w) ''attributes'' = Some v))"
proof -
  from assms have p: "truthy_precedence (JObj ps) = JObj ps"
    by (simp add: truthy_precedence_def)
  have "(\<exists>e. resourceFromAttributes lib (JObj ps) = Inl e \<and>
             createResourceFromDetector lib (JObj ps) h = (Inl (External e), h)) \<or>
        (\<exists>w h'. createResourceFromDetector lib (JObj ps) h = (Inr w, h') \<and> live h' w \<and>
                map_of (attributes lib h' w) = map_of ps \<and>
                map_of (attributes lib h' w) ''attributes'' = Some v)" if f: "lib_faithful lib"
    using createResource_faithful [OF f, of ps h]
  proof (elim disjE exE conjE)
    fix e
    assume "resourceFromAttributes lib (JObj ps) = Inl e"
      and "createResource lib (JObj ps) h = (Inl (External e), h)"
    then show ?thesis by (simp add: createResourceFromDetector_precedence p)
  next
    fix r
    assume c: "createResource lib (JObj ps) h = (Inr (length h), h @ [\<lparr>priv_resource = r\<rparr>])"
      and m: "map_of (native_attributes lib r) = map_of ps"
    with assms(1) show ?thesis
      by (simp add: createResourceFromDetector_precedence p attributes_new live_def)
  qed
  with p show ?thesis
    by (simp add: detector_attributes_precedence createResourceFromDetector_precedence)
qed

theorem falsy_attributes_field_keeps_detector_witness:
  "map_of [(''attributes'', JNum 0), (''host.name'', JStr ''h1'')] ''attributes'' = Some (JNum 0) \<and>
   \<not> truthy (JNum 0) \<and> lib_faithful tiny_lib \<and>
   createResourceFromDetector tiny_lib
     (JObj [(''attributes'', JNum 0), (''host.name'', JStr ''h1'')]) [] =
   createResource tiny_lib (JObj [(''attributes'', JNum 0), (''host.name'', JStr ''h1'')]) [] \<and>
   (\<exists>w h'. createResourceFromDetector tiny_lib
             (JObj [(''attributes'', JNum 0), (''host.name'', JStr ''h1'')]) [] = (Inr w, h') \<and>
           live h' w \<and>
           map_of (attributes tiny_lib h' w) ''attributes'' = Some (JNum 0))"
proof -
  have a: "map_of [(''attributes'', JNum 0), (''host.name'', JStr ''h1'')] ''attributes'' =
           Some (JNum 0)"
    by simp
  have t: "\<not> truthy (JNum 0)" by simp
  have f: "lib_faithful tiny_lib" by (rule tiny_lib_faithful)
  have ok: "\<forall>e. resourceFromAttributes tiny_lib
              (JObj [(''attributes'', JNum 0), (''host.name'', JStr ''h1'')]) \<noteq> Inl e"
    by (simp add: tiny_lib_def)
  note th = falsy_attributes_field_keeps_detector [OF a t, of tiny_lib "[]"]
  from th have eq: "createResourceFromDetector tiny_lib
     (JObj [(''attributes'', JNum 0), (''host.name'', JStr ''h1'')]) [] =
   createResource tiny_lib (JObj [(''attributes'', JNum 0), (''host.name'', JStr ''h1'')]) []"
    by blast
  from th f ok have ex: "\<exists>w h'. createResourceFromDetector tiny_lib
             (JObj [(''attributes'', JNum 0), (''host.name'', JStr ''h1'')]) [] = (Inr w, h') \<and>
           live h' w \<and>
           map_of (attributes tiny_lib h' w) ''attributes'' = Some (JNum 0)"
    by blast
  from a t f eq ex show ?thesis by blast
qed

subsection \<open>Exceptions\<close>

lemma run_fx_factory_call:
  fixes lib :: "('r, 'e, 'w) otel_effects" and c :: "('r, 'x) adapter_call_fx"
  shows "run_fx lib c h w =
     (case factory_call lib c h of
        Inl err \<Rightarrow> (Inl err, h, w)
      | Inr f \<Rightarrow>
          (case f w of
             (Inl e, w') \<Rightarrow> (Inl (External (Inl e)), h, w')
           | (Inr r, w') \<Rightarrow> (Inr (length h), h @ [\<lparr>priv_resource = r\<rparr>], w')))"
proof (cases c)
  case (CreateResource_fx a)
  then show ?thesis by (simp add: createResource_fx_def)
next
  case GetDefaultResource_fx
  then show ?thesis by (simp add: getDefaultResource_fx_def)
next
  case GetEmptyResource_fx
  then show ?thesis by (simp add: getEmptyResource_fx_def)
next
  case (CreateResourceFromDetector_fx d)
  then show ?thesis
    by (cases "detector_attributes d :: ('e + 'x) thrown + jsval")
       (simp_all add: createResourceFromDetector_fx_def)
next
  case (Merge_fx this other)
  then show ?thesis
    by (cases "other_attributes lib h other") (simp_all add: merge_fx_def)
qed




lemma get_attributes_throws:
  "(get_attributes v :: 'e thrown + jsval) = Inl err \<Longrightarrow>
   (v = JUndefined \<or> v = JNull) \<and> err = TypeError"
  by (cases v) simp_all




lemma other_attributes_throws:
  assumes "other_attributes lib h other = Inl err"
  shows "(nullish_native other \<and> err = TypeError) \<or>
         (\<exists>x. other = ForeignThrows x \<and> err = External (Inr x))"
proof (cases other)
  case (ForeignValue v)
  with assms obtain "(v = JUndefined \<or> v = JNull)" and "err = TypeError"
    by (auto simp: other_attributes_def split: sum.splits dest: get_attributes_throws)
  with ForeignValue show ?thesis by simp
next
  case (ForeignThrows x)
  with assms show ?thesis by (simp add: other_attributes_def)
next
  case (Instance r)
  with assms show ?thesis by (simp add: other_attributes_def)
next
  case (ForeignHandle r)
  with assms show ?thesis by (simp add: other_attributes_def)
qed




lemma other_attributes_nullish:
  "nullish_native other \<Longrightarrow> other_attributes lib h other = Inl TypeError"
  by (cases other) (auto simp: other_attributes_def)




lemma factory_call_throws:
  fixes lib :: "('r, 'e, 'w) otel_effects" and c :: "('r, 'x) adapter_call_fx"
  assumes "factory_call lib c h = Inl err"
  shows "\<exists>this other. c = Merge_fx this other \<and>
           ((nullish_native other \<and> err = TypeError) \<or>
            (\<exists>x. other = ForeignThrows x \<and> err = External (Inr x)))"
proof (cases c)
  case (CreateResourceFromDetector_fx d)
  obtain v where "(detector_attributes d :: ('e + 'x) thrown + jsval) = Inr v"
    using detector_attributes_returns by blast
  with assms CreateResourceFromDetector_fx show ?thesis by simp
next
  case (Merge_fx this other)
  with assms have "other_attributes lib h other = Inl err"
    by (cases "other_attributes lib h other") simp_all
  from other_attributes_throws [OF this] Merge_fx show ?thesis by simp
next
  case (CreateResource_fx a)
  with assms show ?thesis by simp
next
  case GetDefaultResource_fx
  with assms show ?thesis by simp
next
  case GetEmptyResource_fx
  with assms show ?thesis by simp
qed

lemma run_fx_failure:
  fixes lib :: "('r, 'e, 'w) otel_effects" and c :: "('r, 'x) adapter_call_fx"
  assumes run: "run_fx lib c h w = (Inl err, h', w')"
  shows "h' = h \<and>
        ((\<exists>f e. factory_call lib c h = Inr f \<and> f w = (Inl e, w') \<and> err = External (Inl e)) \<or>
         (factory_call lib c h = Inl err \<and> w' = w))"
proof (cases "factory_call lib c h")
  case (Inl err0)
  with run show ?thesis by (simp add: run_fx_factory_call)
next
  case (Inr f)
  note fc = this
  obtain res w1 where fw: "f w = (res, w1)" by (cases "f w")
  show ?thesis
  proof (cases res)
    case (Inl e0)
    with run fc fw have "h' = h" and "w' = w1" and "err = External (Inl e0)"
      by (simp_all add: run_fx_factory_call)
    with fc fw Inl show ?thesis by simp
  next
    case (Inr x)
    with run fc fw have False by (simp add: run_fx_factory_call)
    then show ?thesis ..
  qed
qed


text \<open>
  C7, as the code has it. An operation that reaches its factory call makes that call
  once: when the call throws, the operation throws the same exception, creates no
  instance and leaves the library in the state in which that one call left it, so the
  exception is not caught, translated, retried or recovered from; when the call returns a
  handle, the operation returns a new instance holding it. The four factory functions
  always reach their call (their arguments being plain data, which is read without
  running code of the caller), and so does \<^verbatim>\<open>merge\<close> unless
  \<^verbatim>\<open>other.getNativeResource()\<close> throws, whose exception then comes through unchanged,
  or returns \<^verbatim>\<open>undefined\<close> or \<^verbatim>\<open>null\<close>: then \<^verbatim>\<open>merge\<close> throws a \<^verbatim>\<open>TypeError\<close> of
  its own and calls no factory. That is the only error that originates in the adapter.
\<close>

theorem failures_propagate_unchanged:
  fixes lib :: "('r, 'e, 'w) otel_effects" and c :: "('r, 'x) adapter_call_fx"
  shows
    "(\<forall>f e w'. factory_call lib c h = Inr f \<and> f w = (Inl e, w') \<longrightarrow>
        run_fx lib c h w = (Inl (External (Inl e)), h, w')) \<and>
     (\<forall>f r w'. factory_call lib c h = Inr f \<and> f w = (Inr r, w') \<longrightarrow>
        run_fx lib c h w = (Inr (length h), h @ [\<lparr>priv_resource = r\<rparr>], w')) \<and>
     (\<forall>err. factory_call lib c h = Inl err \<longrightarrow>
        run_fx lib c h w = (Inl err, h, w) \<and>
        (\<exists>this other. c = Merge_fx this other \<and>
           ((nullish_native other \<and> err = TypeError) \<or>
            (\<exists>x. other = ForeignThrows x \<and> err = External (Inr x))))) \<and>
     (\<forall>this other. c = Merge_fx this other \<and> nullish_native other \<longrightarrow>
        run_fx lib c h w = (Inl TypeError, h, w)) \<and>
     (\<forall>err h' w'. run_fx lib c h w = (Inl err, h', w') \<longrightarrow>
        h' = h \<and>
        ((\<exists>f e. factory_call lib c h = Inr f \<and> f w = (Inl e, w') \<and> err = External (Inl e)) \<or>
         (factory_call lib c h = Inl err \<and> w' = w))) \<and>
     (\<forall>h' w'. run_fx lib c h w = (Inl TypeError, h', w') \<longrightarrow>
        (\<exists>this other. c = Merge_fx this other \<and> nullish_native other))"
proof (intro conjI allI impI)
  fix f e w'
  assume "factory_call lib c h = Inr f \<and> f w = (Inl e, w')"
  then show "run_fx lib c h w = (Inl (External (Inl e)), h, w')"
    by (simp add: run_fx_factory_call)
next
  fix f r w'
  assume "factory_call lib c h = Inr f \<and> f w = (Inr r, w')"
  then show "run_fx lib c h w = (Inr (length h), h @ [\<lparr>priv_resource = r\<rparr>], w')"
    by (simp add: run_fx_factory_call)
next
  fix err
  assume "factory_call lib c h = Inl err"
  then show "run_fx lib c h w = (Inl err, h, w)"
    by (simp add: run_fx_factory_call)
next
  fix err
  assume "factory_call lib c h = Inl err"
  then show "\<exists>this other. c = Merge_fx this other \<and>
           ((nullish_native other \<and> err = TypeError) \<or>
            (\<exists>x. other = ForeignThrows x \<and> err = External (Inr x)))"
    by (rule factory_call_throws)
next
  fix this other
  assume "c = Merge_fx this other \<and> nullish_native other"
  then show "run_fx lib c h w = (Inl TypeError, h, w)"
    by (simp add: merge_fx_def other_attributes_nullish)
next
  fix err h' w'
  assume "run_fx lib c h w = (Inl err, h', w')"
  from run_fx_failure [OF this] show "h' = h"
    by (rule conjunct1)
next
  fix err h' w'
  assume "run_fx lib c h w = (Inl err, h', w')"
  from run_fx_failure [OF this]
  show "(\<exists>f e. factory_call lib c h = Inr f \<and> f w = (Inl e, w') \<and> err = External (Inl e)) \<or>
        (factory_call lib c h = Inl err \<and> w' = w)"
    by (rule conjunct2)
next
  fix h' w'
  assume run: "run_fx lib c h w = (Inl TypeError, h', w')"
  have "factory_call lib c h = Inl TypeError"
    using run_fx_failure [OF run] by (elim conjE disjE exE) simp_all
  from factory_call_throws [OF this]
  show "\<exists>this other. c = Merge_fx this other \<and> nullish_native other"
    by (elim exE conjE disjE) simp_all
qed

theorem failures_propagate_unchanged_witness:
  "factory_call flaky_lib (CreateResource_fx (JObj []) :: (Attributes, string) adapter_call_fx)
     two_resources = Inr (resourceFromAttributes_fx flaky_lib (JObj [])) \<and>
   resourceFromAttributes_fx flaky_lib (JObj []) 0 = (Inl ''unavailable'', 1) \<and>
   run_fx flaky_lib (CreateResource_fx (JObj []) :: (Attributes, string) adapter_call_fx)
     two_resources 0 = (Inl (External (Inl ''unavailable'')), two_resources, 1) \<and>
   resourceFromAttributes_fx flaky_lib (JObj []) 1 = (Inr [], 2) \<and>
   run_fx flaky_lib (CreateResource_fx (JObj []) :: (Attributes, string) adapter_call_fx)
     two_resources 1 = (Inr 2, two_resources @ [\<lparr>priv_resource = []\<rparr>], 2) \<and>
   nullish_native (ForeignValue JNull :: (Attributes, string) CompatResource) \<and>
   run_fx flaky_lib (Merge_fx 0 (ForeignValue JNull) :: (Attributes, string) adapter_call_fx)
     two_resources 1 = (Inl TypeError, two_resources, 1)"
proof -
  let ?c = "CreateResource_fx (JObj []) :: (Attributes, string) adapter_call_fx"
  let ?m = "Merge_fx 0 (ForeignValue JNull) :: (Attributes, string) adapter_call_fx"
  have fc: "factory_call flaky_lib ?c two_resources =
            Inr (resourceFromAttributes_fx flaky_lib (JObj []))"
    by simp
  have f0: "resourceFromAttributes_fx flaky_lib (JObj []) 0 = (Inl ''unavailable'', 1)"
    by (simp add: flaky_lib_def)
  have f1: "resourceFromAttributes_fx flaky_lib (JObj []) 1 = (Inr [], 2)"
    by (simp add: flaky_lib_def)
  have n: "nullish_native (ForeignValue JNull :: (Attributes, string) CompatResource)"
    by simp
  note t0 = failures_propagate_unchanged
              [where lib = flaky_lib and c = ?c and h = two_resources and w = 0]
  note t1 = failures_propagate_unchanged
              [where lib = flaky_lib and c = ?c and h = two_resources and w = 1]
  note t2 = failures_propagate_unchanged
              [where lib = flaky_lib and c = ?m and h = two_resources and w = 1]
  have r0: "run_fx flaky_lib ?c two_resources 0 =
            (Inl (External (Inl ''unavailable'')), two_resources, 1)"
    using t0 [THEN conjunct1, rule_format, OF conjI, OF fc f0] .
  have r1: "run_fx flaky_lib ?c two_resources 1 =
            (Inr 2, two_resources @ [\<lparr>priv_resource = []\<rparr>], 2)"
    using t1 [THEN conjunct2, THEN conjunct1, rule_format, OF conjI, OF fc f1]
    by (simp add: two_resources_def)
  have r2: "run_fx flaky_lib ?m two_resources 1 = (Inl TypeError, two_resources, 1)"
    using t2 [THEN conjunct2, THEN conjunct2, THEN conjunct2, THEN conjunct1, rule_format,
              OF conjI, OF refl n] .
  from fc f0 r0 f1 r1 n r2 show ?thesis by (intro conjI)
qed

text \<open>
  C7 as it is stated fails for \<^verbatim>\<open>merge\<close> with an argument whose
  \<^verbatim>\<open>getNativeResource()\<close> returns \<^verbatim>\<open>undefined\<close>: the operation throws a \<^verbatim>\<open>TypeError\<close>
  of the adapter's own, and the library, which would not have thrown, is never called.
\<close>

theorem adapter_error_counterexample:
  "factory_call flaky_lib
     (Merge_fx 0 (ForeignValue JUndefined) :: (Attributes, string) adapter_call_fx)
     two_resources = Inl TypeError \<and>
   run_fx flaky_lib
     (Merge_fx 0 (ForeignValue JUndefined) :: (Attributes, string) adapter_call_fx)
     two_resources 1 = (Inl TypeError, two_resources, 1)"
  by (simp add: merge_fx_def other_attributes_def)

text \<open>
  On a library without state and between instances of the module, the operations of this
  part are those of the first part.
\<close>

lemma run_fx_stateless:
  "run_fx (stateless lib) (between_instances c) h w =
     (case run lib c h of (res, h') \<Rightarrow> (map_sum (map_thrown Inl) id res, h', w))"
proof (cases c)
  case (CreateResource a)
  then show ?thesis
    by (cases "resourceFromAttributes lib (if a = JUndefined then JObj [] else a)")
       (simp_all add: createResource_fx_def createResource_def stateless_def
          new_ResourceWrapper_def)
next
  case GetDefaultResource
  then show ?thesis
    by (cases "defaultResource lib")
       (simp_all add: getDefaultResource_fx_def getDefaultResource_def stateless_def
          new_ResourceWrapper_def)
next
  case GetEmptyResource
  then show ?thesis
    by (cases "emptyResource lib")
       (simp_all add: getEmptyResource_fx_def getEmptyResource_def stateless_def
          new_ResourceWrapper_def)
next
  case (CreateResourceFromDetector d)
  then show ?thesis
    by (cases "resourceFromAttributes lib (truthy_precedence d)")
       (simp_all add: createResourceFromDetector_fx_def createResourceFromDetector_def
          detector_attributes_precedence stateless_def new_ResourceWrapper_def)
next
  case (Merge a b)
  then show ?thesis
    by (cases "resourceFromAttributes lib (JObj (mergedAttributes lib a b h))")
       (simp_all add: merge_fx_def merge_def other_attributes_def mergedAttributes_def
          stateless_def new_ResourceWrapper_def)
qed

end
